theory Spec2Isabelle
  imports Complex_Main "HOL-Library.Char_ord" "HOL-Library.List_Lexorder" "HOL-Library.Multiset"
begin

section \<open>The product model of \<^verbatim>\<open>models/producto.py\<close>\<close>

text \<open>
  The module declares one record type, \<^verbatim>\<open>mi.producto\<close>, on top of a hosting ORM.
  A row of the table is a \<^theory_text>\<open>record\<close>; the table is a list of rows in insertion
  order together with the next free identifier. A record set (\<^verbatim>\<open>self\<close>) is a list of
  identifiers. Float fields are modelled as \<open>real\<close>: products and quotients are the
  numeric type's own, finite values only (no NaN, no infinities, no binary rounding).
  Integer fields are Python's unbounded \<open>int\<close>. An empty (\<^verbatim>\<open>False\<close>) Text, Many2one or
  Selection value is \<open>None\<close>.

  The unique index on \<^verbatim>\<open>nombre\<close> and the NOT NULL of the required field are enforced by
  the database and are outside these definitions.
\<close>

subsection \<open>Fields\<close>

datatype tipo_sel = fisico | digital

record producto =
  rec_id :: nat
  nombre :: string
  descripcion :: "string option"
  precio_unitario :: real
  cantidad :: int
  subtotal :: real
  iva :: real
  total_f :: real
  activo :: bool
  categoria_id :: "nat option"
  tipo :: "tipo_sel option"

text \<open>
  A values dictionary (\<^verbatim>\<open>vals\<close>) is a list of entries, one constructor per stored
  field, a later entry for the same key overriding an earlier one.
\<close>

datatype field_val =
    Nombre string
  | Descripcion "string option"
  | Precio_unitario real
  | Cantidad int
  | Iva real
  | Activo bool
  | Categoria_id "nat option"
  | Tipo "tipo_sel option"

type_synonym vals = "field_val list"

fun fname :: "field_val \<Rightarrow> string" where
  "fname (Nombre _) = ''nombre''"
| "fname (Descripcion _) = ''descripcion''"
| "fname (Precio_unitario _) = ''precio_unitario''"
| "fname (Cantidad _) = ''cantidad''"
| "fname (Iva _) = ''iva''"
| "fname (Activo _) = ''activo''"
| "fname (Categoria_id _) = ''categoria_id''"
| "fname (Tipo _) = ''tipo''"

definition keys :: "vals \<Rightarrow> string list" where
  "keys vs = map fname vs"

definition stored_fields :: "string list" where
  "stored_fields = [''nombre'', ''descripcion'', ''precio_unitario'', ''cantidad'',
     ''iva'', ''activo'', ''categoria_id'', ''tipo'']"

fun set_field :: "field_val \<Rightarrow> producto \<Rightarrow> producto" where
  "set_field (Nombre v) r = r\<lparr>nombre := v\<rparr>"
| "set_field (Descripcion v) r = r\<lparr>descripcion := v\<rparr>"
| "set_field (Precio_unitario v) r = r\<lparr>precio_unitario := v\<rparr>"
| "set_field (Cantidad v) r = r\<lparr>cantidad := v\<rparr>"
| "set_field (Iva v) r = r\<lparr>iva := v\<rparr>"
| "set_field (Activo v) r = r\<lparr>activo := v\<rparr>"
| "set_field (Categoria_id v) r = r\<lparr>categoria_id := v\<rparr>"
| "set_field (Tipo v) r = r\<lparr>tipo := v\<rparr>"

definition apply_vals :: "vals \<Rightarrow> producto \<Rightarrow> producto" where
  "apply_vals vs r = fold set_field vs r"

subsection \<open>Errors, return values, the store\<close>

datatype error = ValueError string | MissingError

datatype pyval =
    PyNone
  | PyBool bool
  | PyStr string
  | PyRecordset "nat list"
  | PyDict "(string \<times> pyval) list"

record store =
  rows :: "producto list"
  next_id :: nat

definition browse :: "store \<Rightarrow> nat \<Rightarrow> producto option" where
  "browse st i = find (\<lambda>r. rec_id r = i) (rows st)"

definition ids_of :: "store \<Rightarrow> nat set" where
  "ids_of st = rec_id ` set (rows st)"

fun records :: "store \<Rightarrow> nat list \<Rightarrow> producto list" where
  "records st [] = []"
| "records st (i # ids) =
     (case browse st i of None \<Rightarrow> records st ids | Some r \<Rightarrow> r # records st ids)"

subsection \<open>Default methods\<close>

definition default_precio_unitario :: real where
  "default_precio_unitario = 10.0"

text \<open>
  Modelled from the spec: the host's base \<^verbatim>\<open>default_get\<close>, which is not in the
  repository. It returns the defaults declared on the fields (lines 38 to 52 of the
  source) for the requested field names.
\<close>

definition super_default_get :: "string list \<Rightarrow> vals" where
  "super_default_get fields_list =
     filter (\<lambda>v. fname v \<in> set fields_list)
       [Precio_unitario default_precio_unitario, Cantidad 1, Iva 21, Activo True,
        Tipo (Some fisico)]"

definition default_get :: "string list \<Rightarrow> vals" where
  "default_get fields_list = super_default_get fields_list @ [Cantidad 1]"

subsection \<open>Compute methods\<close>

definition compute_subtotal :: "producto list \<Rightarrow> producto list" where
  "compute_subtotal self =
     map (\<lambda>record. record\<lparr>subtotal := precio_unitario record * of_int (cantidad record)\<rparr>) self"

definition compute_total :: "producto list \<Rightarrow> producto list" where
  "compute_total self =
     map (\<lambda>record. record\<lparr>total_f := subtotal record * (1 + iva record / 100)\<rparr>) self"

subsection \<open>Constraint and onchange methods\<close>

fun check_valores :: "producto list \<Rightarrow> error + unit" where
  "check_valores [] = Inr ()"
| "check_valores (record # rest) =
     (if precio_unitario record < 0
        then Inl (ValueError ''El precio unitario no puede ser negativo'')
      else if cantidad record < 0
        then Inl (ValueError ''La cantidad no puede ser negativa'')
      else check_valores rest)"


subsection \<open>The host's base operations\<close>

text \<open>
  Modelled from the spec: the host's recomputation pass, which is not in the
  repository. The dependency table is the one the \<^verbatim>\<open>@api.depends\<close> decorators
  declare: \<^verbatim>\<open>subtotal\<close> on \<^verbatim>\<open>precio_unitario\<close> and \<^verbatim>\<open>cantidad\<close>, \<^verbatim>\<open>total\<close> on
  \<^verbatim>\<open>subtotal\<close> and \<^verbatim>\<open>iva\<close>; \<^verbatim>\<open>subtotal\<close> is resolved before \<^verbatim>\<open>total\<close>.
\<close>

definition recompute :: "string list \<Rightarrow> producto list \<Rightarrow> producto list" where
  "recompute changed rs =
     (if ''precio_unitario'' \<in> set changed \<or> ''cantidad'' \<in> set changed
        then compute_total (compute_subtotal rs)
      else if ''iva'' \<in> set changed then compute_total rs
      else rs)"

definition recompute1 :: "string list \<Rightarrow> producto \<Rightarrow> producto" where
  "recompute1 changed r = (case recompute changed [r] of [r'] \<Rightarrow> r' | _ \<Rightarrow> r)"

text \<open>
  Modelled from the spec: the record a creation starts from before defaults and
  supplied values are written, every field empty.
\<close>

definition blank :: "nat \<Rightarrow> producto" where
  "blank n = \<lparr>rec_id = n, nombre = [], descripcion = None, precio_unitario = 0,
     cantidad = 0, subtotal = 0, iva = 0, total_f = 0, activo = False,
     categoria_id = None, tipo = None\<rparr>"

text \<open>
  Modelled from the spec: the host's base \<^verbatim>\<open>create\<close>, which is not in the
  repository. Fields absent from the supplied values take the result of
  \<^verbatim>\<open>default_get\<close>, supplied values override defaults, the derived fields are computed,
  the constraint methods run, and the new row is appended under a fresh identifier.
\<close>

definition new_record :: "nat \<Rightarrow> vals \<Rightarrow> producto" where
  "new_record n vs =
     recompute1 stored_fields
       (apply_vals (default_get (filter (\<lambda>f. f \<notin> set (keys vs)) stored_fields) @ vs)
          (blank n))"

definition super_create :: "store \<Rightarrow> vals \<Rightarrow> error + (nat \<times> store)" where
  "super_create st vs =
     (let record = new_record (next_id st) vs in
      case check_valores [record] of
        Inl e \<Rightarrow> Inl e
      | Inr _ \<Rightarrow> Inr (next_id st,
                   \<lparr>rows = rows st @ [record], next_id = Suc (next_id st)\<rparr>))"

text \<open>
  Modelled from the spec: the host's base \<^verbatim>\<open>write\<close>, which is not in the
  repository. It fails on a record that does not exist, writes the values on every
  record of the set, recomputes the derived fields whose dependencies were written,
  and runs the constraint method when one of the fields named by its
  \<^verbatim>\<open>@api.constrains\<close> decorator was written.
\<close>

definition write_row :: "nat list \<Rightarrow> vals \<Rightarrow> producto \<Rightarrow> producto" where
  "write_row ids vs r =
     (if rec_id r \<in> set ids then recompute1 (keys vs) (apply_vals vs r) else r)"

definition super_write :: "store \<Rightarrow> nat list \<Rightarrow> vals \<Rightarrow> error + (bool \<times> store)" where
  "super_write st ids vs =
     (if \<not> set ids \<subseteq> ids_of st then Inl MissingError
      else
        let st' = st\<lparr>rows := map (write_row ids vs) (rows st)\<rparr> in
        if ''precio_unitario'' \<in> set (keys vs) \<or> ''cantidad'' \<in> set (keys vs)
        then (case check_valores (records st' ids) of
                Inl e \<Rightarrow> Inl e
              | Inr _ \<Rightarrow> Inr (True, st'))
        else Inr (True, st'))"


text \<open>
  Modelled from the spec: the host's \<^verbatim>\<open>search\<close>, which is not in the repository.
  It returns the records that satisfy the domain, in the model's default order
  (\<^verbatim>\<open>_order = "nombre asc"\<close>).
\<close>

definition search :: "store \<Rightarrow> (producto \<Rightarrow> bool) \<Rightarrow> nat list" where
  "search st domain = map rec_id (sort_key nombre (filter domain (rows st)))"

subsection \<open>CRUD methods\<close>

definition create :: "store \<Rightarrow> vals \<Rightarrow> error + (nat \<times> store)" where
  "create st vs = super_create st vs"

text \<open>The method \<^verbatim>\<open>write\<close>; the name alone is reserved in Isabelle.\<close>

definition write_m :: "store \<Rightarrow> nat list \<Rightarrow> vals \<Rightarrow> error + (bool \<times> store)" where
  "write_m st ids vs = super_write st ids vs"

subsection \<open>Action methods\<close>

fun action_marcar_inactivo :: "store \<Rightarrow> nat list \<Rightarrow> error + (pyval \<times> store)" where
  "action_marcar_inactivo st [] = Inr (PyBool True, st)"
| "action_marcar_inactivo st (i # rest) =
     (case write_m st [i] [Activo False] of
        Inl e \<Rightarrow> Inl e
      | Inr (_, st') \<Rightarrow> action_marcar_inactivo st' rest)"

definition action_abrir_wizard :: "store \<Rightarrow> nat list \<Rightarrow> pyval \<times> store" where
  "action_abrir_wizard st self =
     (PyDict [(''type'', PyStr ''ir.actions.act_window''),
              (''res_model'', PyStr ''mi.modulo.wizard''),
              (''view_mode'', PyStr ''form''),
              (''target'', PyStr ''new'')], st)"

subsection \<open>Other business methods\<close>

text \<open>The dictionary literal that \<^verbatim>\<open>duplicar_producto\<close> passes to \<^verbatim>\<open>create\<close>.\<close>

definition duplicar_vals :: "producto \<Rightarrow> vals" where
  "duplicar_vals record =
     [Nombre (nombre record @ '' (Copia)''),
      Descripcion (descripcion record),
      Precio_unitario (precio_unitario record),
      Cantidad (cantidad record),
      Iva (iva record),
      Activo (activo record),
      Categoria_id (categoria_id record),
      Tipo (tipo record)]"


definition productos_activos :: "store \<Rightarrow> pyval \<times> store" where
  "productos_activos st = (PyRecordset (search st (\<lambda>r. activo r = True)), st)"

subsection \<open>Predicates and sample data used in the statements\<close>

text \<open>The invariant that \<^verbatim>\<open>_check_valores\<close> guards: neither value is negative.\<close>

definition valores_ok :: "producto \<Rightarrow> bool" where
  "valores_ok r = (0 \<le> precio_unitario r \<and> 0 \<le> cantidad r)"


definition widget :: producto where
  "widget = \<lparr>rec_id = 1, nombre = ''Widget'', descripcion = None, precio_unitario = 10,
     cantidad = 1, subtotal = 10, iva = 21, total_f = 121 / 10, activo = True,
     categoria_id = None, tipo = Some fisico\<rparr>"

definition gadget :: producto where
  "gadget = \<lparr>rec_id = 2, nombre = ''Gadget'', descripcion = Some ''e-book'',
     precio_unitario = 4, cantidad = 5, subtotal = 20, iva = 10, total_f = 22,
     activo = True, categoria_id = Some 7, tipo = Some digital\<rparr>"

definition abaco :: producto where
  "abaco = \<lparr>rec_id = 3, nombre = ''Abaco'', descripcion = None, precio_unitario = 3,
     cantidad = 2, subtotal = 6, iva = 21, total_f = 726 / 100, activo = False,
     categoria_id = None, tipo = Some fisico\<rparr>"

definition tienda :: store where
  "tienda = \<lparr>rows = [widget, gadget, abaco], next_id = 4\<rparr>"

section \<open>Properties\<close>

subsection \<open>Auxiliary facts\<close>

lemmas sample_defs = widget_def gadget_def abaco_def tienda_def

lemma recompute1_eq:
  "recompute1 changed r =
     (if ''precio_unitario'' \<in> set changed \<or> ''cantidad'' \<in> set changed
        then r\<lparr>subtotal := precio_unitario r * of_int (cantidad r),
               total_f := precio_unitario r * of_int (cantidad r) * (1 + iva r / 100)\<rparr>
      else if ''iva'' \<in> set changed then r\<lparr>total_f := subtotal r * (1 + iva r / 100)\<rparr>
      else r)"
  by (simp add: recompute1_def recompute_def compute_total_def compute_subtotal_def)

lemma set_field_rec_id [simp]: "rec_id (set_field v r) = rec_id r"
  by (cases v) simp_all

lemma apply_vals_rec_id [simp]: "rec_id (apply_vals vs r) = rec_id r"
  unfolding apply_vals_def by (induction vs arbitrary: r) simp_all

lemma recompute1_rec_id [simp]: "rec_id (recompute1 changed r) = rec_id r"
  by (simp add: recompute1_eq)

lemma write_row_rec_id [simp]: "rec_id (write_row ids vs r) = rec_id r"
  by (simp add: write_row_def)









lemma valores_ok_recompute1 [simp]: "valores_ok (recompute1 changed r) = valores_ok r"
  by (simp add: recompute1_eq valores_ok_def)






lemma new_record_duplicar:
  "new_record n (duplicar_vals r) =
     r\<lparr>rec_id := n, nombre := nombre r @ '' (Copia)'',
       subtotal := precio_unitario r * of_int (cantidad r),
       total_f := precio_unitario r * of_int (cantidad r) * (1 + iva r / 100)\<rparr>"
  by (cases r)
     (simp add: new_record_def duplicar_vals_def keys_def stored_fields_def default_get_def
        super_default_get_def apply_vals_def blank_def recompute1_eq)









lemma write_activo:
  assumes "i \<in> ids_of st"
  shows "write_m st [i] [Activo False] =
     Inr (True, st\<lparr>rows := map (\<lambda>r. if rec_id r = i then r\<lparr>activo := False\<rparr> else r) (rows st)\<rparr>)"
proof -
  have "write_row [i] [Activo False] = (\<lambda>r. if rec_id r = i then r\<lparr>activo := False\<rparr> else r)"
    by (rule ext) (simp add: write_row_def recompute1_eq keys_def apply_vals_def)
  then show ?thesis using assms
    by (simp add: write_m_def super_write_def keys_def Let_def)
qed

lemma ids_of_map: "(\<And>r. rec_id (f r) = rec_id r) \<Longrightarrow> ids_of (st\<lparr>rows := map f (rows st)\<rparr>) = ids_of st"
  by (simp add: ids_of_def image_image)

text \<open>
  The spec's scenario: a creation that supplies only a name takes price 10, quantity
  1 and tax rate 21 from the defaults and gets subtotal 10 and total 12.1; a creation
  with quantity -1 is refused.
\<close>

lemma create_scenario:
  "create tienda [Nombre ''Tuerca''] =
     Inr (4, \<lparr>rows = [widget, gadget, abaco,
                      \<lparr>rec_id = 4, nombre = ''Tuerca'', descripcion = None,
                       precio_unitario = 10, cantidad = 1, subtotal = 10, iva = 21,
                       total_f = 121 / 10, activo = True, categoria_id = None,
                       tipo = Some fisico\<rparr>],
              next_id = 5\<rparr>)
   \<and> create tienda [Nombre ''Tuerca'', Cantidad (- 1)] =
     Inl (ValueError ''La cantidad no puede ser negativa'')"
  by (simp add: create_def super_create_def new_record_def stored_fields_def keys_def
      default_get_def super_default_get_def default_precio_unitario_def apply_vals_def
      blank_def recompute1_eq tienda_def)

subsection \<open>Validation at commit\<close>




subsection \<open>Derived fields\<close>







subsection \<open>Duplicating\<close>




text \<open>
  C6 (amended): the values that \<^verbatim>\<open>duplicar_producto\<close> passes to \<^verbatim>\<open>create\<close> have exactly
  the eight stored fields as keys. The quantity is among them, passed explicitly with
  the original's value, and the copy has that quantity. The derived fields are not
  among them: the copy's subtotal and total are computed from its own price, quantity
  and tax rate, whatever the original's subtotal and total were.
\<close>

theorem duplicar_vals_keys:
  "keys (duplicar_vals r) = stored_fields
   \<and> Cantidad (cantidad r) \<in> set (duplicar_vals r)
   \<and> ''subtotal'' \<notin> set (keys (duplicar_vals r))
   \<and> ''total'' \<notin> set (keys (duplicar_vals r))
   \<and> cantidad (new_record n (duplicar_vals r)) = cantidad r
   \<and> subtotal (new_record n (duplicar_vals r)) = precio_unitario r * of_int (cantidad r)
   \<and> total_f (new_record n (duplicar_vals r)) =
        precio_unitario r * of_int (cantidad r) * (1 + iva r / 100)
   \<and> new_record n (duplicar_vals (r\<lparr>subtotal := s, total_f := t\<rparr>)) =
        new_record n (duplicar_vals r)"
  by (simp add: new_record_duplicar) (simp add: duplicar_vals_def keys_def stored_fields_def)

text \<open>
  The claim as written has the quantity left out of the values and defaulted. For a
  product with quantity 5 the values hold the entry \<^verbatim>\<open>cantidad = 5\<close> and the copy has
  quantity 5; the creation default, which the same values without that entry would
  get, is 1.
\<close>

theorem duplicar_vals_keys_counterexample:
  "Cantidad 5 \<in> set (duplicar_vals gadget)
   \<and> ''cantidad'' \<in> set (keys (duplicar_vals gadget))
   \<and> cantidad (new_record 4 (duplicar_vals gadget)) = 5
   \<and> cantidad (new_record 4 (filter (\<lambda>v. fname v \<noteq> ''cantidad'') (duplicar_vals gadget))) = 1"
  by (simp add: new_record_duplicar)
     (simp add: duplicar_vals_def keys_def gadget_def new_record_def stored_fields_def
        default_get_def super_default_get_def apply_vals_def blank_def recompute1_eq)



subsection \<open>Actions\<close>

text \<open>
  C7: for every set of existing records, \<^verbatim>\<open>action_marcar_inactivo\<close> succeeds and
  returns \<^verbatim>\<open>True\<close>; afterwards every record of the set has \<^verbatim>\<open>activo = False\<close> and is
  otherwise as before, and every other record is unchanged.
\<close>

theorem action_marcar_inactivo_frame:
  assumes "set ids \<subseteq> ids_of st"
  shows "action_marcar_inactivo st ids =
     Inr (PyBool True,
          st\<lparr>rows := map (\<lambda>r. if rec_id r \<in> set ids then r\<lparr>activo := False\<rparr> else r) (rows st)\<rparr>)"
  using assms
proof (induction ids arbitrary: st)
  case Nil
  then show ?case by simp
next
  case (Cons i ids)
  let ?f = "\<lambda>r. if rec_id r = i then r\<lparr>activo := False\<rparr> else r"
  let ?st = "st\<lparr>rows := map ?f (rows st)\<rparr>"
  have w: "write_m st [i] [Activo False] = Inr (True, ?st)"
    using Cons.prems by (simp add: write_activo)
  have "ids_of ?st = ids_of st" by (rule ids_of_map) simp
  with Cons.prems have "set ids \<subseteq> ids_of ?st" by simp
  from Cons.IH[OF this]
  have "action_marcar_inactivo ?st ids =
     Inr (PyBool True,
          ?st\<lparr>rows := map (\<lambda>r. if rec_id r \<in> set ids then r\<lparr>activo := False\<rparr> else r) (rows ?st)\<rparr>)" .
  moreover have "map (\<lambda>r. if rec_id r \<in> set ids then r\<lparr>activo := False\<rparr> else r) (map ?f (rows st))
      = map (\<lambda>r. if rec_id r \<in> set (i # ids) then r\<lparr>activo := False\<rparr> else r) (rows st)"
    by simp
  ultimately show ?case using w by simp
qed

theorem action_marcar_inactivo_frame_witness:
  "set [1, 2] \<subseteq> ids_of tienda
   \<and> action_marcar_inactivo tienda [1, 2] =
       Inr (PyBool True,
            \<lparr>rows = [widget\<lparr>activo := False\<rparr>, gadget\<lparr>activo := False\<rparr>, abaco], next_id = 4\<rparr>)"
proof -
  have h: "set [1, 2] \<subseteq> ids_of tienda" by (simp add: ids_of_def sample_defs)
  from action_marcar_inactivo_frame [OF h] h show ?thesis by (simp add: sample_defs)
qed

text \<open>
  C8: in every state of the store, \<^verbatim>\<open>productos_activos\<close> returns the identifiers of
  exactly the rows with \<^verbatim>\<open>activo = True\<close>, each once and none with \<^verbatim>\<open>activo = False\<close>,
  in ascending order of \<^verbatim>\<open>nombre\<close>, and leaves the store as it was.
\<close>

theorem productos_activos_exact:
  "\<exists>rs. productos_activos st = (PyRecordset (map rec_id rs), st)
     \<and> mset rs = filter_mset activo (mset (rows st))
     \<and> set rs = {r. r \<in> set (rows st) \<and> activo r}
     \<and> sorted (map nombre rs)"
proof -
  let ?rs = "sort_key nombre (filter (\<lambda>r. activo r = True) (rows st))"
  have "productos_activos st = (PyRecordset (map rec_id ?rs), st)"
    by (simp add: productos_activos_def search_def)
  moreover have "mset ?rs = filter_mset activo (mset (rows st))" by simp
  moreover have "set ?rs = {r. r \<in> set (rows st) \<and> activo r}" by auto
  moreover have "sorted (map nombre ?rs)" by simp
  ultimately show ?thesis by blast
qed

lemma productos_activos_tienda: "productos_activos tienda = (PyRecordset [2, 1], tienda)"
  by (simp add: productos_activos_def search_def sample_defs)

text \<open>
  C9 (amended): for every record set, \<^verbatim>\<open>action_abrir_wizard\<close> returns the descriptor
  with \<^verbatim>\<open>type = ir.actions.act_window\<close>, \<^verbatim>\<open>res_model = mi.modulo.wizard\<close>,
  \<^verbatim>\<open>view_mode = form\<close> and \<^verbatim>\<open>target = new\<close> (the host's window action, shown as a
  dialog), and leaves the store as it was.
\<close>

theorem action_abrir_wizard_descriptor:
  "action_abrir_wizard st self =
     (PyDict [(''type'', PyStr ''ir.actions.act_window''),
              (''res_model'', PyStr ''mi.modulo.wizard''),
              (''view_mode'', PyStr ''form''),
              (''target'', PyStr ''new'')], st)"
  by (simp add: action_abrir_wizard_def)

text \<open>
  The claim as written gives the descriptor a target type \<^verbatim>\<open>wizard\<close> and a modal
  display: the descriptor returned is not the one the claim spells out, its type is
  \<^verbatim>\<open>ir.actions.act_window\<close> and its target is \<^verbatim>\<open>new\<close>.
\<close>

theorem action_abrir_wizard_descriptor_counterexample:
  "fst (action_abrir_wizard tienda [1]) \<noteq>
     PyDict [(''target_type'', PyStr ''wizard''),
             (''target_model'', PyStr ''mi.modulo.wizard''),
             (''mode'', PyStr ''form''),
             (''display'', PyStr ''modal'')]
   \<and> fst (action_abrir_wizard tienda [1]) =
     PyDict [(''type'', PyStr ''ir.actions.act_window''),
             (''res_model'', PyStr ''mi.modulo.wizard''),
             (''view_mode'', PyStr ''form''),
             (''target'', PyStr ''new'')]
   \<and> PyStr ''ir.actions.act_window'' \<noteq> PyStr ''wizard''
   \<and> PyStr ''new'' \<noteq> PyStr ''modal''"
  by (simp add: action_abrir_wizard_def)

end
